theory Spec2Isabelle
  imports Main
begin

section \<open>The launcher script \<open>run.py\<close>\<close>

text \<open>
  The script is sequential and talks to its host through a handful of library calls:
  \<open>shutil.which\<close>, \<open>os.path.isdir\<close>, \<open>print\<close>, \<open>subprocess.call\<close>,
  \<open>subprocess.Popen\<close>, \<open>Popen.wait\<close>, \<open>Popen.terminate\<close> and \<open>sys.exit\<close>.
  The embedding keeps the script's control flow and makes every such call explicit:
  what the host answers is read from a record \<open>world\<close>, what the script does to the
  host is appended to a trace of events, and an exception is a value of \<open>py_exc\<close>.
  The code of a child is the integer Python reports as its \<open>returncode\<close>: the exit
  code of a child that exited, and on POSIX the negated signal number of a child that was
  killed by a signal. The exit status of the launcher is what the operating system makes of
  the argument of \<open>sys.exit\<close>.
\<close>

subsection \<open>Data\<close>

type_synonym environment = "string \<rightharpoonup> string"

text \<open>The exception classes the script raises, catches or lets through.\<close>

datatype py_exc =
    SystemExit "int option"
  | KeyboardInterrupt
  | UnboundLocalError
  | OSError

text \<open>\<open>issubclass(e, Exception)\<close>: \<open>SystemExit\<close> and \<open>KeyboardInterrupt\<close> derive from
  \<open>BaseException\<close> only.\<close>

fun is_Exception :: "py_exc \<Rightarrow> bool" where
  "is_Exception (SystemExit c) = False"
| "is_Exception KeyboardInterrupt = False"
| "is_Exception UnboundLocalError = True"
| "is_Exception OSError = True"

text \<open>The options \<open>argparse\<close> builds (lines 16-20): \<open>--dev\<close>, \<open>--port\<close> (an \<open>int\<close>,
  default 3001) and \<open>--force-install\<close>.\<close>

record args =
  dev :: bool
  port :: int
  force_install :: bool

definition default_args :: args where
  "default_args = \<lparr>dev = False, port = 3001, force_install = False\<rparr>"

text \<open>A \<open>Popen\<close> object, as far as the script reads it.\<close>

record popen =
  popen_args :: "string list"
  returncode :: "int option"

text \<open>What the script does to its host, in order.\<close>

datatype event =
    Which string
  | Isdir string
  | Stdout string
  | Stderr string
  | Call "string list" environment
  | Call_returned "string list" int
  | Popen "string list" environment
  | Wait_returned "string list" int
  | Terminate "string list"

text \<open>
  What the host answers. \<open>os_name\<close> is \<open>os.name\<close>; \<open>which\<close> is \<open>shutil.which\<close>;
  \<open>isdir\<close> is \<open>os.path.isdir\<close>. The four remaining fields say how a library call on a
  child process ends: \<open>subprocess.call\<close> returns the child's exit code or raises,
  the \<open>Popen\<close> constructor returns or raises, \<open>wait\<close> returns after setting
  \<open>returncode\<close> or raises, \<open>terminate\<close> returns or raises.
\<close>

record world =
  os_name :: string
  which :: "string \<Rightarrow> string option"
  isdir :: "string \<Rightarrow> bool"
  call_result :: "string list \<Rightarrow> py_exc + int"
  popen_result :: "string list \<Rightarrow> environment \<Rightarrow> py_exc option"
  wait_result :: "string list \<Rightarrow> py_exc + int"
  terminate_result :: "string list \<Rightarrow> py_exc option"

text \<open>The launcher's own process state: the trace so far and \<open>os.environ\<close>.\<close>

record pstate =
  trace :: "event list"
  os_environ :: environment

definition emit :: "event \<Rightarrow> pstate \<Rightarrow> pstate" where
  "emit e s = s\<lparr>trace := trace s @ [e]\<rparr>"

subsection \<open>\<open>str\<close> on integers\<close>

definition digit_char :: "nat \<Rightarrow> char" where
  "digit_char d = ''0123456789'' ! d"

fun str_nat :: "nat \<Rightarrow> string" where
  "str_nat n = (if n < 10 then [digit_char n] else str_nat (n div 10) @ [digit_char (n mod 10)])"

declare str_nat.simps [simp del]

definition str_int :: "int \<Rightarrow> string" where
  "str_int i = (if i < 0 then CHR ''-'' # str_nat (nat (- i)) else str_nat (nat i))"

subsection \<open>The script\<close>

text \<open>Line 9: \<open>exe\<close>.\<close>

definition exe :: "world \<Rightarrow> string \<Rightarrow> string" where
  "exe w name = (if os_name w = ''nt'' then name @ ''.cmd'' else name)"

text \<open>Line 12: \<open>check_cmd\<close>.\<close>

definition check_cmd :: "world \<Rightarrow> string \<Rightarrow> pstate \<Rightarrow> bool \<times> pstate" where
  "check_cmd w cmd s = (which w cmd \<noteq> None, emit (Which cmd) s)"

text \<open>Line 29: \<open>or\<close> evaluates its right operand only when the left one is false.\<close>

definition need_install :: "world \<Rightarrow> args \<Rightarrow> pstate \<Rightarrow> bool \<times> pstate" where
  "need_install w a s =
     (if force_install a then (True, s)
      else (\<not> isdir w ''node_modules'', emit (Isdir ''node_modules'') s))"

text \<open>Line 32: \<open>subprocess.call\<close> without \<open>env\<close>: the child inherits \<open>os.environ\<close>
  as it is at the call, and the call returns once the child has exited.\<close>

definition subprocess_call :: "world \<Rightarrow> string list \<Rightarrow> pstate \<Rightarrow> (py_exc + int) \<times> pstate" where
  "subprocess_call w argv s =
     (let s1 = emit (Call argv (os_environ s)) s in
      case call_result w argv of
        Inl e \<Rightarrow> (Inl e, s1)
      | Inr code \<Rightarrow> (Inr code, emit (Call_returned argv code) s1))"

text \<open>Lines 30-34. The result is the exception that leaves the step, if any.\<close>

definition install_step :: "world \<Rightarrow> pstate \<Rightarrow> py_exc option \<times> pstate" where
  "install_step w s =
     (let s1 = emit (Stdout ''Installing dependencies (npm install)...'') s in
      case subprocess_call w [exe w ''npm'', ''install''] s1 of
        (Inl e, s2) \<Rightarrow> (Some e, s2)
      | (Inr code, s2) \<Rightarrow> if code \<noteq> 0 then (Some (SystemExit (Some code)), s2) else (None, s2))"

text \<open>Lines 36-37: a copy of \<open>os.environ\<close> with \<open>PORT\<close> set; \<open>os.environ\<close> itself
  is left as it was.\<close>

definition child_env :: "args \<Rightarrow> pstate \<Rightarrow> environment" where
  "child_env a s = (let env = os_environ s in env(''PORT'' \<mapsto> str_int (port a)))"

text \<open>Line 39.\<close>

definition service_cmd :: "world \<Rightarrow> args \<Rightarrow> string list" where
  "service_cmd w a = (if dev a then [exe w ''npm'', ''run'', ''dev''] else [exe w ''npm'', ''start''])"

text \<open>Line 40.\<close>

definition status_line :: "args \<Rightarrow> string" where
  "status_line a =
     ''Starting Booking service on port '' @ str_int (port a) @ '' ('' @
     (if dev a then ''dev'' else ''start'') @ '')...''"

text \<open>Lines 42-44, the body of the \<open>try\<close>. It always ends in an exception
  (\<open>sys.exit\<close> raises \<open>SystemExit\<close>); the local \<open>proc\<close> is bound only once
  \<open>Popen\<close> has returned.\<close>

definition try_body ::
  "world \<Rightarrow> string list \<Rightarrow> environment \<Rightarrow> pstate \<Rightarrow> py_exc \<times> popen option \<times> pstate" where
  "try_body w cmd env s =
     (let s1 = emit (Popen cmd env) s in
      case popen_result w cmd env of
        Some e \<Rightarrow> (e, None, s1)
      | None \<Rightarrow>
          (let proc = \<lparr>popen_args = cmd, returncode = None\<rparr> in
           case wait_result w (popen_args proc) of
             Inl e \<Rightarrow> (e, Some proc, s1)
           | Inr rc \<Rightarrow>
               (let proc' = proc\<lparr>returncode := Some rc\<rparr>
                in (SystemExit (returncode proc'), Some proc',
                    emit (Wait_returned (popen_args proc') rc) s1))))"

text \<open>Line 48: reading the unbound local \<open>proc\<close> raises \<open>UnboundLocalError\<close>
  before any call is made.\<close>

definition terminate_attempt :: "world \<Rightarrow> popen option \<Rightarrow> pstate \<Rightarrow> py_exc option \<times> pstate" where
  "terminate_attempt w proc s =
     (case proc of
        None \<Rightarrow> (Some UnboundLocalError, s)
      | Some p \<Rightarrow> (terminate_result w (popen_args p), emit (Terminate (popen_args p)) s))"

text \<open>Lines 46-50, the handler of \<open>KeyboardInterrupt\<close>.\<close>

definition interrupt_handler :: "world \<Rightarrow> popen option \<Rightarrow> pstate \<Rightarrow> py_exc option \<times> pstate" where
  "interrupt_handler w proc s =
     (let s1 = emit (Stdout (CHR 0x0A # ''Stopping...'')) s in
      case terminate_attempt w proc s1 of
        (None, s2) \<Rightarrow> (None, s2)
      | (Some e, s2) \<Rightarrow> if is_Exception e then (None, s2) else (Some e, s2))"

text \<open>Lines 36-50.\<close>

definition service_step :: "world \<Rightarrow> args \<Rightarrow> pstate \<Rightarrow> py_exc option \<times> pstate" where
  "service_step w a s =
     (let env = child_env a s;
          cmd = service_cmd w a;
          s1 = emit (Stdout (status_line a)) s in
      case try_body w cmd env s1 of
        (e, proc, s2) \<Rightarrow>
          if e = KeyboardInterrupt then interrupt_handler w proc s2 else (Some e, s2))"

text \<open>Lines 15-50: \<open>main\<close>, after \<open>parse_args\<close>. \<open>None\<close> is a normal return.\<close>

definition main :: "world \<Rightarrow> args \<Rightarrow> pstate \<Rightarrow> py_exc option \<times> pstate" where
  "main w a s =
     (case check_cmd w ''node'' s of (have_node, s1) \<Rightarrow>
      if \<not> have_node then
        (Some (SystemExit (Some 1)),
         emit (Stderr ''ERROR: Node.js not found in PATH. Install Node 18+ and try again.'') s1)
      else
        (case check_cmd w (exe w ''npm'') s1 of (have_npm, s2) \<Rightarrow>
         if \<not> have_npm then
           (Some (SystemExit (Some 1)), emit (Stderr ''ERROR: npm not found in PATH.'') s2)
         else
           (case need_install w a s2 of (need, s3) \<Rightarrow>
            if need then
              (case install_step w s3 of
                 (Some e, s4) \<Rightarrow> (Some e, s4)
               | (None, s4) \<Rightarrow> service_step w a s4)
            else service_step w a s3)))"

text \<open>A run of the script in a parent environment \<open>penv\<close>.\<close>

definition launch :: "world \<Rightarrow> args \<Rightarrow> environment \<Rightarrow> py_exc option \<times> pstate" where
  "launch w a penv = main w a \<lparr>trace = [], os_environ = penv\<rparr>"

text \<open>
  The exit status of the interpreter, as far as it is the same on every platform: 0 when
  the script runs to its end, and the argument of \<open>sys.exit\<close> when \<open>SystemExit\<close> leaves
  it with a value from 0 to 255 (\<open>None\<close> counts as 0). \<open>None\<close> as a result says that
  the status is not determined here: for an argument outside 0..255 it depends on the
  platform, and for another uncaught exception it is the interpreter's business.
\<close>

fun exit_status :: "py_exc option \<Rightarrow> int option" where
  "exit_status None = Some 0"
| "exit_status (Some (SystemExit None)) = Some 0"
| "exit_status (Some (SystemExit (Some n))) = (if 0 \<le> n \<and> n \<le> 255 then Some n else None)"
| "exit_status (Some e) = None"

text \<open>
  The exit status on a given host. On POSIX (\<open>os.name\<close> is \<open>posix\<close>) the interpreter
  passes the argument of \<open>sys.exit\<close> to \<open>exit\<close> as a C \<open>int\<close> and the parent sees its
  low eight bits: \<open>sys.exit(-15)\<close> gives status 241 and \<open>sys.exit(256)\<close> gives 0.
  Arguments that do not fit a 32-bit \<open>int\<close>, and arguments outside 0..255 on other
  platforms, are left undetermined.
\<close>

definition exit_status_on :: "world \<Rightarrow> py_exc option \<Rightarrow> int option" where
  "exit_status_on w r =
     (case r of
        Some (SystemExit (Some n)) \<Rightarrow>
          if os_name w = ''posix'' \<and> - (2 ^ 31) \<le> n \<and> n < 2 ^ 31 then Some (n mod 256)
          else exit_status r
      | _ \<Rightarrow> exit_status r)"

subsection \<open>Reading a trace\<close>

fun is_which :: "event \<Rightarrow> bool" where
  "is_which (Which name) = True"
| "is_which e = False"

fun is_stderr :: "event \<Rightarrow> bool" where
  "is_stderr (Stderr msg) = True"
| "is_stderr e = False"

fun is_call :: "event \<Rightarrow> bool" where
  "is_call (Call argv env) = True"
| "is_call e = False"

fun is_popen :: "event \<Rightarrow> bool" where
  "is_popen (Popen argv env) = True"
| "is_popen e = False"

fun is_terminate :: "event \<Rightarrow> bool" where
  "is_terminate (Terminate argv) = True"
| "is_terminate e = False"

text \<open>The two points at which a child process is started.\<close>

definition is_spawn :: "event \<Rightarrow> bool" where
  "is_spawn e = (is_call e \<or> is_popen e)"

text \<open>Everything that concerns a child process.\<close>

fun is_proc_event :: "event \<Rightarrow> bool" where
  "is_proc_event (Call argv env) = True"
| "is_proc_event (Call_returned argv code) = True"
| "is_proc_event (Popen argv env) = True"
| "is_proc_event (Wait_returned argv code) = True"
| "is_proc_event (Terminate argv) = True"
| "is_proc_event e = False"

definition proc_events :: "event list \<Rightarrow> event list" where
  "proc_events t = filter is_proc_event t"

subsection \<open>Reading a decimal string\<close>

text \<open>The integer a string of decimal digits with an optional leading minus sign
  denotes; it says what "the decimal string form" of an integer is.\<close>

definition digit_val :: "char \<Rightarrow> nat" where
  "digit_val c = of_char c - 48"

definition nat_of_decimal :: "string \<Rightarrow> nat" where
  "nat_of_decimal s = foldl (\<lambda>n c. 10 * n + digit_val c) 0 s"

definition decimal_value :: "string \<Rightarrow> int" where
  "decimal_value s =
     (case s of
        [] \<Rightarrow> 0
      | c # cs \<Rightarrow> if c = CHR ''-'' then - int (nat_of_decimal cs) else int (nat_of_decimal s))"

subsection \<open>Two hosts\<close>

text \<open>A POSIX host with both tools installed, no \<open>node_modules\<close> yet, and children
  that exit with code 0.\<close>

definition posix_host :: world where
  "posix_host =
     \<lparr>os_name = ''posix'',
      which = (\<lambda>c. if c = ''node'' \<or> c = ''npm'' then Some (''/usr/bin/'' @ c) else None),
      isdir = (\<lambda>p. False),
      call_result = (\<lambda>argv. Inr 0),
      popen_result = (\<lambda>argv env. None),
      wait_result = (\<lambda>argv. Inr 0),
      terminate_result = (\<lambda>argv. None)\<rparr>"

text \<open>A Windows host: \<open>os.name\<close> is \<open>nt\<close>, the runtime is \<open>node.exe\<close> (found under
  the name \<open>node\<close>) and the package manager is \<open>npm.cmd\<close>; \<open>node_modules\<close> exists.\<close>

definition windows_host :: world where
  "windows_host =
     \<lparr>os_name = ''nt'',
      which = (\<lambda>c. if c = ''node'' then Some ''C:/nodejs/node.EXE''
                   else if c = ''npm.cmd'' then Some ''C:/nodejs/npm.cmd'' else None),
      isdir = (\<lambda>p. p = ''node_modules''),
      call_result = (\<lambda>argv. Inr 0),
      popen_result = (\<lambda>argv env. None),
      wait_result = (\<lambda>argv. Inr 0),
      terminate_result = (\<lambda>argv. None)\<rparr>"

section \<open>Properties\<close>

subsection \<open>\<open>str\<close> gives the decimal form\<close>

lemma digit_cases:
  "d < 10 \<Longrightarrow>
   d = 0 \<or> d = 1 \<or> d = 2 \<or> d = 3 \<or> d = 4 \<or> d = 5 \<or> d = 6 \<or> d = 7 \<or> d = 8 \<or> d = (9::nat)"
  by arith

lemma digit_val_digit_char: "d < 10 \<Longrightarrow> digit_val (digit_char d) = d"
  using digit_cases[of d] by (auto simp: digit_val_def digit_char_def)

lemma digit_char_not_minus: "d < 10 \<Longrightarrow> digit_char d \<noteq> CHR ''-''"
  using digit_cases[of d] by (auto simp: digit_char_def)

lemma str_nat_nonempty: "str_nat n \<noteq> []"
  by (induction n rule: str_nat.induct) (subst str_nat.simps, simp)

lemma hd_str_nat: "hd (str_nat n) \<noteq> CHR ''-''"
proof (induction n rule: str_nat.induct)
  case (1 n)
  show ?case
  proof (cases "n < 10")
    case True
    then show ?thesis by (subst str_nat.simps) (simp add: digit_char_not_minus)
  next
    case False
    with 1 have "hd (str_nat (n div 10)) \<noteq> CHR ''-''" by simp
    with False show ?thesis
      by (subst str_nat.simps) (simp add: str_nat_nonempty)
  qed
qed

lemma nat_of_decimal_str_nat: "nat_of_decimal (str_nat n) = n"
proof (induction n rule: str_nat.induct)
  case (1 n)
  show ?case
  proof (cases "n < 10")
    case True
    then show ?thesis
      by (subst str_nat.simps) (simp add: nat_of_decimal_def digit_val_digit_char)
  next
    case False
    with 1 have ih: "nat_of_decimal (str_nat (n div 10)) = n div 10" by simp
    have "nat_of_decimal (str_nat n) =
          10 * nat_of_decimal (str_nat (n div 10)) + digit_val (digit_char (n mod 10))"
      using False by (subst str_nat.simps) (simp add: nat_of_decimal_def)
    also have "\<dots> = 10 * (n div 10) + n mod 10"
      by (simp add: ih digit_val_digit_char)
    finally show ?thesis by simp
  qed
qed

lemma decimal_value_str_int: "decimal_value (str_int i) = i"
proof (cases "i < 0")
  case True
  then show ?thesis
    by (simp add: decimal_value_def str_int_def nat_of_decimal_str_nat)
next
  case False
  obtain c cs where cs: "str_nat (nat i) = c # cs"
    using str_nat_nonempty[of "nat i"] by (cases "str_nat (nat i)") auto
  with hd_str_nat[of "nat i"] have "c \<noteq> CHR ''-''" by simp
  with False cs nat_of_decimal_str_nat[of "nat i"] show ?thesis
    by (simp add: decimal_value_def str_int_def)
qed

subsection \<open>The runs of the script, case by case\<close>

text \<open>The service step ends in one of five ways, decided by what \<open>Popen\<close>,
  \<open>wait\<close> and \<open>terminate\<close> do.\<close>

lemma service_step_cases
  [case_names spawn_interrupted spawn_raised exited wait_raised wait_interrupted]:
  obtains
    (spawn_interrupted)
      "popen_result w (service_cmd w a) (child_env a s) = Some KeyboardInterrupt"
      "service_step w a s =
         (None, s\<lparr>trace := trace s @
            [Stdout (status_line a), Popen (service_cmd w a) (child_env a s),
             Stdout (CHR 0x0A # ''Stopping...'')]\<rparr>)"
  | (spawn_raised) e where
      "popen_result w (service_cmd w a) (child_env a s) = Some e"
      "e \<noteq> KeyboardInterrupt"
      "service_step w a s =
         (Some e, s\<lparr>trace := trace s @
            [Stdout (status_line a), Popen (service_cmd w a) (child_env a s)]\<rparr>)"
  | (exited) rc where
      "popen_result w (service_cmd w a) (child_env a s) = None"
      "wait_result w (service_cmd w a) = Inr rc"
      "service_step w a s =
         (Some (SystemExit (Some rc)), s\<lparr>trace := trace s @
            [Stdout (status_line a), Popen (service_cmd w a) (child_env a s),
             Wait_returned (service_cmd w a) rc]\<rparr>)"
  | (wait_raised) e where
      "popen_result w (service_cmd w a) (child_env a s) = None"
      "wait_result w (service_cmd w a) = Inl e"
      "e \<noteq> KeyboardInterrupt"
      "service_step w a s =
         (Some e, s\<lparr>trace := trace s @
            [Stdout (status_line a), Popen (service_cmd w a) (child_env a s)]\<rparr>)"
  | (wait_interrupted)
      "popen_result w (service_cmd w a) (child_env a s) = None"
      "wait_result w (service_cmd w a) = Inl KeyboardInterrupt"
      "service_step w a s =
         ((case terminate_result w (service_cmd w a) of
             None \<Rightarrow> None
           | Some e \<Rightarrow> if is_Exception e then None else Some e),
          s\<lparr>trace := trace s @
            [Stdout (status_line a), Popen (service_cmd w a) (child_env a s),
             Stdout (CHR 0x0A # ''Stopping...''), Terminate (service_cmd w a)]\<rparr>)"
proof (cases "popen_result w (service_cmd w a) (child_env a s)")
  case (Some e)
  show ?thesis
  proof (cases "e = KeyboardInterrupt")
    case True
    with Some show ?thesis
      by (intro spawn_interrupted)
        (simp_all add: service_step_def try_body_def interrupt_handler_def
          terminate_attempt_def emit_def child_env_def Let_def)
  next
    case False
    with Some show ?thesis
      by (intro spawn_raised[of e])
        (simp_all add: service_step_def try_body_def emit_def child_env_def Let_def)
  qed
next
  case None
  show ?thesis
  proof (cases "wait_result w (service_cmd w a)")
    case (Inr rc)
    with None show ?thesis
      by (intro exited[of rc])
        (simp_all add: service_step_def try_body_def emit_def child_env_def Let_def)
  next
    case (Inl e)
    show ?thesis
    proof (cases "e = KeyboardInterrupt")
      case False
      with None Inl show ?thesis
        by (intro wait_raised[of e])
          (simp_all add: service_step_def try_body_def emit_def child_env_def Let_def)
    next
      case True
      with None Inl show ?thesis
        by (intro wait_interrupted)
          (simp_all add: service_step_def try_body_def interrupt_handler_def
            terminate_attempt_def emit_def child_env_def Let_def split: option.splits)
    qed
  qed
qed

text \<open>A run ends at one of the two checks, at the install step, or goes through the
  service step after a prefix \<open>pre\<close> of events.\<close>

lemma launch_cases [case_names no_node no_npm install_raised install_failed service]:
  obtains
    (no_node)
      "which w ''node'' = None"
      "launch w a penv =
         (Some (SystemExit (Some 1)),
          \<lparr>trace = [Which ''node'',
             Stderr ''ERROR: Node.js not found in PATH. Install Node 18+ and try again.''],
           os_environ = penv\<rparr>)"
  | (no_npm)
      "which w ''node'' \<noteq> None"
      "which w (exe w ''npm'') = None"
      "launch w a penv =
         (Some (SystemExit (Some 1)),
          \<lparr>trace = [Which ''node'', Which (exe w ''npm''),
             Stderr ''ERROR: npm not found in PATH.''],
           os_environ = penv\<rparr>)"
  | (install_raised) e where
      "which w ''node'' \<noteq> None"
      "which w (exe w ''npm'') \<noteq> None"
      "force_install a \<or> \<not> isdir w ''node_modules''"
      "call_result w [exe w ''npm'', ''install''] = Inl e"
      "launch w a penv =
         (Some e,
          \<lparr>trace = [Which ''node'', Which (exe w ''npm'')] @
             (if force_install a then [] else [Isdir ''node_modules'']) @
             [Stdout ''Installing dependencies (npm install)...'',
              Call [exe w ''npm'', ''install''] penv],
           os_environ = penv\<rparr>)"
  | (install_failed) code where
      "which w ''node'' \<noteq> None"
      "which w (exe w ''npm'') \<noteq> None"
      "force_install a \<or> \<not> isdir w ''node_modules''"
      "call_result w [exe w ''npm'', ''install''] = Inr code"
      "code \<noteq> 0"
      "launch w a penv =
         (Some (SystemExit (Some code)),
          \<lparr>trace = [Which ''node'', Which (exe w ''npm'')] @
             (if force_install a then [] else [Isdir ''node_modules'']) @
             [Stdout ''Installing dependencies (npm install)...'',
              Call [exe w ''npm'', ''install''] penv,
              Call_returned [exe w ''npm'', ''install''] code],
           os_environ = penv\<rparr>)"
  | (service) pre where
      "which w ''node'' \<noteq> None"
      "which w (exe w ''npm'') \<noteq> None"
      "pre = [Which ''node'', Which (exe w ''npm'')] @
             (if force_install a then [] else [Isdir ''node_modules'']) @
             (if force_install a \<or> \<not> isdir w ''node_modules''
              then [Stdout ''Installing dependencies (npm install)...'',
                    Call [exe w ''npm'', ''install''] penv,
                    Call_returned [exe w ''npm'', ''install''] 0]
              else [])"
      "force_install a \<or> \<not> isdir w ''node_modules'' \<Longrightarrow>
         call_result w [exe w ''npm'', ''install''] = Inr 0"
      "launch w a penv = service_step w a \<lparr>trace = pre, os_environ = penv\<rparr>"
proof (cases "which w ''node'' = None")
  case True
  then show ?thesis
    by (intro no_node) (simp_all add: launch_def main_def check_cmd_def emit_def)
next
  case node: False
  show ?thesis
  proof (cases "which w (exe w ''npm'') = None")
    case True
    with node show ?thesis
      by (intro no_npm) (simp_all add: launch_def main_def check_cmd_def emit_def)
  next
    case npm: False
    show ?thesis
    proof (cases "force_install a \<or> \<not> isdir w ''node_modules''")
      case False
      with node npm show ?thesis
        by (intro service[of "[Which ''node'', Which (exe w ''npm''), Isdir ''node_modules'']"])
          (simp_all add: launch_def main_def check_cmd_def need_install_def emit_def)
    next
      case need: True
      show ?thesis
      proof (cases "call_result w [exe w ''npm'', ''install'']")
        case (Inl e)
        with node npm need show ?thesis
          by (intro install_raised[of e])
            (auto simp: launch_def main_def check_cmd_def need_install_def install_step_def
              subprocess_call_def emit_def)
      next
        case (Inr code)
        show ?thesis
        proof (cases "code = 0")
          case False
          with node npm need Inr show ?thesis
            by (intro install_failed[of code])
              (auto simp: launch_def main_def check_cmd_def need_install_def install_step_def
                subprocess_call_def emit_def)
        next
          case True
          with node npm need Inr show ?thesis
            by (intro service[of "[Which ''node'', Which (exe w ''npm'')] @
                 (if force_install a then [] else [Isdir ''node_modules'']) @
                 [Stdout ''Installing dependencies (npm install)...'',
                  Call [exe w ''npm'', ''install''] penv,
                  Call_returned [exe w ''npm'', ''install''] 0]"])
              (auto simp: launch_def main_def check_cmd_def need_install_def install_step_def
                subprocess_call_def emit_def)
        qed
      qed
    qed
  qed
qed

subsection \<open>Evaluating a run on a given host\<close>

lemmas run_simps = launch_def main_def check_cmd_def need_install_def install_step_def
  subprocess_call_def service_step_def try_body_def interrupt_handler_def terminate_attempt_def
  emit_def child_env_def service_cmd_def status_line_def exe_def str_int_def str_nat.simps
  digit_char_def Let_def default_args_def posix_host_def windows_host_def proc_events_def
  is_spawn_def

subsection \<open>The install step\<close>

text \<open>
  C1. In a run that passes both toolchain checks, \<open>npm install\<close> is called exactly when
  \<open>--force-install\<close> is set or \<open>node_modules\<close> is not a directory: the call is in the
  trace if and only if that condition holds, no other \<open>subprocess.call\<close> is ever made,
  and when the condition holds no \<open>Popen\<close> of the service comes before the call.
\<close>

theorem install_runs_iff_needed:
  assumes "which w ''node'' \<noteq> None" and "which w (exe w ''npm'') \<noteq> None"
  shows "(Call [exe w ''npm'', ''install''] penv \<in> set (trace (snd (launch w a penv))))
           = (force_install a \<or> \<not> isdir w ''node_modules'')
       \<and> list_ex is_call (trace (snd (launch w a penv)))
           = (force_install a \<or> \<not> isdir w ''node_modules'')
       \<and> (force_install a \<or> \<not> isdir w ''node_modules'' \<longrightarrow>
            \<not> list_ex is_popen
               (takeWhile (\<lambda>e. \<not> is_call e) (trace (snd (launch w a penv)))))"
proof (cases w a penv rule: launch_cases)
  case no_node
  with assms show ?thesis by simp
next
  case no_npm
  with assms show ?thesis by simp
next
  case (install_raised e)
  then show ?thesis by simp
next
  case (install_failed code)
  then show ?thesis by simp
next
  case (service pre)
  then show ?thesis
    by (cases w a "\<lparr>trace = pre, os_environ = penv\<rparr>" rule: service_step_cases) simp_all
qed

theorem install_runs_iff_needed_witness:
  "which posix_host ''node'' \<noteq> None \<and> which posix_host (exe posix_host ''npm'') \<noteq> None
   \<and> \<not> isdir posix_host ''node_modules''
   \<and> Call [''npm'', ''install''] Map.empty
        \<in> set (trace (snd (launch posix_host default_args Map.empty)))
   \<and> which windows_host ''node'' \<noteq> None
   \<and> which windows_host (exe windows_host ''npm'') \<noteq> None
   \<and> isdir windows_host ''node_modules'' \<and> \<not> force_install default_args
   \<and> \<not> list_ex is_call (trace (snd (launch windows_host default_args Map.empty)))"
proof -
  have p: "which posix_host ''node'' \<noteq> None"
    "which posix_host (exe posix_host ''npm'') \<noteq> None"
    by (simp_all add: posix_host_def exe_def)
  have q: "which windows_host ''node'' \<noteq> None"
    "which windows_host (exe windows_host ''npm'') \<noteq> None"
    by (simp_all add: windows_host_def exe_def)
  from install_runs_iff_needed[OF p, of Map.empty default_args]
    install_runs_iff_needed[OF q, of Map.empty default_args] p q
  show ?thesis
    by (simp add: posix_host_def windows_host_def exe_def default_args_def)
qed

text \<open>
  C2, as the script has it. If the install call returns a code \<open>C\<close> other than 0, the
  service is never spawned (no \<open>Popen\<close> event) and the launcher leaves through
  \<open>sys.exit(C)\<close>. Its exit status is \<open>C\<close> when \<open>C\<close> is between 1 and 255; on a POSIX
  host, where \<open>C\<close> is negative when the installer was killed by a signal, the status is
  \<open>C mod 256\<close>.
\<close>

theorem install_failure_stops_launcher:
  assumes "Call_returned argv C \<in> set (trace (snd (launch w a penv)))" and "C \<noteq> 0"
  shows "argv = [exe w ''npm'', ''install'']
       \<and> \<not> list_ex is_popen (trace (snd (launch w a penv)))
       \<and> fst (launch w a penv) = Some (SystemExit (Some C))
       \<and> (0 < C \<and> C \<le> 255 \<longrightarrow>
            exit_status (fst (launch w a penv)) = Some C
            \<and> exit_status_on w (fst (launch w a penv)) = Some C)
       \<and> (os_name w = ''posix'' \<and> - (2 ^ 31) \<le> C \<and> C < 2 ^ 31 \<longrightarrow>
            exit_status_on w (fst (launch w a penv)) = Some (C mod 256))"
proof -
  have run: "argv = [exe w ''npm'', ''install'']
       \<and> \<not> list_ex is_popen (trace (snd (launch w a penv)))
       \<and> fst (launch w a penv) = Some (SystemExit (Some C))"
  proof (cases w a penv rule: launch_cases)
    case (service pre)
    with assms show ?thesis
      by (cases w a "\<lparr>trace = pre, os_environ = penv\<rparr>" rule: service_step_cases)
         (auto split: if_splits)
  qed (use assms in \<open>auto split: if_splits\<close>)
  then show ?thesis
    by (simp add: exit_status_on_def)
qed

theorem install_failure_stops_launcher_witness:
  "Call_returned [''npm'', ''install''] 7 \<in>
     set (trace (snd (launch (posix_host\<lparr>call_result := \<lambda>argv. Inr 7\<rparr>)
                       default_args Map.empty)))
   \<and> (7::int) \<noteq> 0 \<and> (0::int) < 7 \<and> (7::int) \<le> 255
   \<and> os_name (posix_host\<lparr>call_result := \<lambda>argv. Inr 7\<rparr>) = ''posix''
   \<and> - (2 ^ 31) \<le> (7::int) \<and> (7::int) < 2 ^ 31
   \<and> \<not> list_ex is_popen
       (trace (snd (launch (posix_host\<lparr>call_result := \<lambda>argv. Inr 7\<rparr>)
                     default_args Map.empty)))
   \<and> exit_status (fst (launch (posix_host\<lparr>call_result := \<lambda>argv. Inr 7\<rparr>)
                        default_args Map.empty)) = Some 7
   \<and> exit_status_on (posix_host\<lparr>call_result := \<lambda>argv. Inr 7\<rparr>)
        (fst (launch (posix_host\<lparr>call_result := \<lambda>argv. Inr 7\<rparr>)
                default_args Map.empty)) = Some 7"
proof -
  have h: "Call_returned [''npm'', ''install''] 7 \<in>
     set (trace (snd (launch (posix_host\<lparr>call_result := \<lambda>argv. Inr 7\<rparr>)
                       default_args Map.empty)))"
    by (simp add: run_simps)
  have o: "os_name (posix_host\<lparr>call_result := \<lambda>argv. Inr 7\<rparr>) = ''posix''"
    by (simp add: posix_host_def)
  from install_failure_stops_launcher[OF h] h o show ?thesis
    by (simp add: exit_status_on_def)
qed

text \<open>
  C2 as stated fails for a code outside 1..255. On a POSIX host whose installer is
  killed by \<open>SIGTERM\<close>, \<open>subprocess.call\<close> returns -15; the launcher calls
  \<open>sys.exit(-15)\<close> and its exit status is 241, not -15.
\<close>

theorem install_killed_by_signal_exit_status:
  "os_name (posix_host\<lparr>call_result := \<lambda>argv. Inr (- 15)\<rparr>) = ''posix''
   \<and> Call_returned [''npm'', ''install''] (- 15) \<in>
       set (trace (snd (launch (posix_host\<lparr>call_result := \<lambda>argv. Inr (- 15)\<rparr>)
                         default_args Map.empty)))
   \<and> fst (launch (posix_host\<lparr>call_result := \<lambda>argv. Inr (- 15)\<rparr>) default_args Map.empty)
       = Some (SystemExit (Some (- 15)))
   \<and> exit_status_on (posix_host\<lparr>call_result := \<lambda>argv. Inr (- 15)\<rparr>)
        (fst (launch (posix_host\<lparr>call_result := \<lambda>argv. Inr (- 15)\<rparr>)
                default_args Map.empty)) = Some 241
   \<and> exit_status_on (posix_host\<lparr>call_result := \<lambda>argv. Inr (- 15)\<rparr>)
        (fst (launch (posix_host\<lparr>call_result := \<lambda>argv. Inr (- 15)\<rparr>)
                default_args Map.empty)) \<noteq> Some (- 15)"
  by (simp add: run_simps exit_status_on_def)

subsection \<open>The service step\<close>

text \<open>
  C3, as the script has it. If the run reaches the service step and \<open>wait\<close> returns with
  the child's code \<open>N\<close> (so no interrupt occurred), the launcher leaves through
  \<open>sys.exit(N)\<close>. Its exit status is \<open>N\<close> when \<open>N\<close> is between 0 and 255; on a POSIX
  host, where \<open>N\<close> is negative when the service was killed by a signal, the status is
  \<open>N mod 256\<close>.
\<close>

theorem service_exit_code_propagated:
  assumes "Wait_returned cmd N \<in> set (trace (snd (launch w a penv)))"
  shows "cmd = service_cmd w a
       \<and> fst (launch w a penv) = Some (SystemExit (Some N))
       \<and> (0 \<le> N \<and> N \<le> 255 \<longrightarrow>
            exit_status (fst (launch w a penv)) = Some N
            \<and> exit_status_on w (fst (launch w a penv)) = Some N)
       \<and> (os_name w = ''posix'' \<and> - (2 ^ 31) \<le> N \<and> N < 2 ^ 31 \<longrightarrow>
            exit_status_on w (fst (launch w a penv)) = Some (N mod 256))"
proof -
  have run: "cmd = service_cmd w a \<and> fst (launch w a penv) = Some (SystemExit (Some N))"
  proof (cases w a penv rule: launch_cases)
    case (service pre)
    with assms show ?thesis
      by (cases w a "\<lparr>trace = pre, os_environ = penv\<rparr>" rule: service_step_cases)
         (auto split: if_splits)
  qed (use assms in \<open>auto split: if_splits\<close>)
  then show ?thesis
    by (simp add: exit_status_on_def)
qed

theorem service_exit_code_propagated_witness:
  "Wait_returned [''npm'', ''start''] 3 \<in>
     set (trace (snd (launch (posix_host\<lparr>wait_result := \<lambda>argv. Inr 3\<rparr>)
                       default_args Map.empty)))
   \<and> (0::int) \<le> 3 \<and> (3::int) \<le> 255
   \<and> os_name (posix_host\<lparr>wait_result := \<lambda>argv. Inr 3\<rparr>) = ''posix''
   \<and> - (2 ^ 31) \<le> (3::int) \<and> (3::int) < 2 ^ 31
   \<and> exit_status (fst (launch (posix_host\<lparr>wait_result := \<lambda>argv. Inr 3\<rparr>)
                        default_args Map.empty)) = Some 3
   \<and> exit_status_on (posix_host\<lparr>wait_result := \<lambda>argv. Inr 3\<rparr>)
        (fst (launch (posix_host\<lparr>wait_result := \<lambda>argv. Inr 3\<rparr>)
                default_args Map.empty)) = Some 3"
proof -
  have h: "Wait_returned [''npm'', ''start''] 3 \<in>
     set (trace (snd (launch (posix_host\<lparr>wait_result := \<lambda>argv. Inr 3\<rparr>)
                       default_args Map.empty)))"
    by (simp add: run_simps)
  have o: "os_name (posix_host\<lparr>wait_result := \<lambda>argv. Inr 3\<rparr>) = ''posix''"
    by (simp add: posix_host_def)
  from service_exit_code_propagated[OF h] h o show ?thesis
    by (simp add: exit_status_on_def)
qed

text \<open>
  C3 as stated fails for a code outside 0..255. On a POSIX host whose service is killed
  by \<open>SIGKILL\<close>, \<open>wait\<close> sets \<open>returncode\<close> to -9; the launcher calls \<open>sys.exit(-9)\<close>
  and its exit status is 247, not -9.
\<close>

theorem service_killed_by_signal_exit_status:
  "os_name (posix_host\<lparr>wait_result := \<lambda>argv. Inr (- 9)\<rparr>) = ''posix''
   \<and> Wait_returned [''npm'', ''start''] (- 9) \<in>
       set (trace (snd (launch (posix_host\<lparr>wait_result := \<lambda>argv. Inr (- 9)\<rparr>)
                         default_args Map.empty)))
   \<and> fst (launch (posix_host\<lparr>wait_result := \<lambda>argv. Inr (- 9)\<rparr>) default_args Map.empty)
       = Some (SystemExit (Some (- 9)))
   \<and> exit_status_on (posix_host\<lparr>wait_result := \<lambda>argv. Inr (- 9)\<rparr>)
        (fst (launch (posix_host\<lparr>wait_result := \<lambda>argv. Inr (- 9)\<rparr>)
                default_args Map.empty)) = Some 247
   \<and> exit_status_on (posix_host\<lparr>wait_result := \<lambda>argv. Inr (- 9)\<rparr>)
        (fst (launch (posix_host\<lparr>wait_result := \<lambda>argv. Inr (- 9)\<rparr>)
                default_args Map.empty)) \<noteq> Some (- 9)"
  by (simp add: run_simps exit_status_on_def)

text \<open>
  C4. Whatever the port \<open>p\<close>, the environment the service child is spawned with is the
  parent environment with \<open>PORT\<close> set to \<open>str(p)\<close>: \<open>PORT\<close> holds that string, every
  other variable is as in the parent, and the string is the decimal form of \<open>p\<close>.
\<close>

theorem service_env_is_parent_with_port:
  assumes "Popen cmd env \<in> set (trace (snd (launch w a penv)))"
  shows "env = penv(''PORT'' \<mapsto> str_int (port a))
       \<and> env ''PORT'' = Some (str_int (port a))
       \<and> (\<forall>k. k \<noteq> ''PORT'' \<longrightarrow> env k = penv k)
       \<and> decimal_value (str_int (port a)) = port a"
proof -
  have "env = penv(''PORT'' \<mapsto> str_int (port a))"
  proof (cases w a penv rule: launch_cases)
    case (service pre)
    with assms show ?thesis
      by (cases w a "\<lparr>trace = pre, os_environ = penv\<rparr>" rule: service_step_cases)
         (auto simp: child_env_def split: if_splits)
  qed (use assms in \<open>auto split: if_splits\<close>)
  then show ?thesis by (simp add: decimal_value_str_int)
qed

theorem service_env_is_parent_with_port_witness:
  "Popen [''npm.cmd'', ''run'', ''dev''] [''PATH'' \<mapsto> ''C:/nodejs'', ''PORT'' \<mapsto> ''8080'']
     \<in> set (trace (snd (launch windows_host \<lparr>dev = True, port = 8080, force_install = False\<rparr>
                     [''PORT'' \<mapsto> ''5000'', ''PATH'' \<mapsto> ''C:/nodejs''])))
   \<and> str_int 8080 = ''8080'' \<and> decimal_value (str_int 8080) = 8080"
proof -
  have s: "str_int 8080 = ''8080''"
    by (simp add: str_int_def str_nat.simps digit_char_def)
  have e: "[''PORT'' \<mapsto> ''5000'', ''PATH'' \<mapsto> ''C:/nodejs''](''PORT'' \<mapsto> ''8080'')
         = [''PATH'' \<mapsto> ''C:/nodejs'', ''PORT'' \<mapsto> ''8080'']"
    by (rule ext) simp
  have h: "Popen [''npm.cmd'', ''run'', ''dev''] [''PATH'' \<mapsto> ''C:/nodejs'', ''PORT'' \<mapsto> ''8080'']
     \<in> set (trace (snd (launch windows_host \<lparr>dev = True, port = 8080, force_install = False\<rparr>
                     [''PORT'' \<mapsto> ''5000'', ''PATH'' \<mapsto> ''C:/nodejs''])))"
    unfolding e[symmetric] by (simp add: run_simps)
  from service_env_is_parent_with_port[OF h] h s show ?thesis by simp
qed

subsection \<open>The toolchain checks\<close>

text \<open>
  C5. If \<open>node\<close> cannot be located, or if the package manager cannot, the launcher
  prints an error to \<open>stderr\<close> (it is the last thing it does), leaves through
  \<open>sys.exit(1)\<close> and has made no call that concerns a child process: no install and no
  service invocation.
\<close>

theorem toolchain_missing_exits_1:
  assumes "which w ''node'' = None \<or> which w (exe w ''npm'') = None"
  shows "fst (launch w a penv) = Some (SystemExit (Some 1))
       \<and> exit_status (fst (launch w a penv)) = Some 1
       \<and> proc_events (trace (snd (launch w a penv))) = []
       \<and> \<not> list_ex is_spawn (trace (snd (launch w a penv)))
       \<and> is_stderr (last (trace (snd (launch w a penv))))"
proof (cases w a penv rule: launch_cases)
  case no_node
  then show ?thesis by (simp add: proc_events_def is_spawn_def)
next
  case no_npm
  then show ?thesis by (simp add: proc_events_def is_spawn_def)
qed (use assms in auto)

theorem toolchain_missing_exits_1_witness:
  "(which (posix_host\<lparr>which := \<lambda>c. None\<rparr>) ''node'' = None
     \<or> which (posix_host\<lparr>which := \<lambda>c. None\<rparr>) (exe (posix_host\<lparr>which := \<lambda>c. None\<rparr>) ''npm'') = None)
   \<and> exit_status (fst (launch (posix_host\<lparr>which := \<lambda>c. None\<rparr>) default_args Map.empty)) = Some 1
   \<and> proc_events (trace (snd (launch (posix_host\<lparr>which := \<lambda>c. None\<rparr>) default_args Map.empty))) = []
   \<and> which (posix_host\<lparr>which := \<lambda>c. if c = ''node'' then Some ''/usr/bin/node'' else None\<rparr>)
        (exe posix_host ''npm'') = None
   \<and> trace (snd (launch (posix_host\<lparr>which := \<lambda>c. if c = ''node'' then Some ''/usr/bin/node'' else None\<rparr>)
        default_args Map.empty)) = [Which ''node'', Which ''npm'', Stderr ''ERROR: npm not found in PATH.'']"
proof -
  let ?w = "posix_host\<lparr>which := \<lambda>c. None\<rparr>"
  have h: "which ?w ''node'' = None \<or> which ?w (exe ?w ''npm'') = None" by simp
  have t: "which (posix_host\<lparr>which := \<lambda>c. if c = ''node'' then Some ''/usr/bin/node'' else None\<rparr>)
        (exe posix_host ''npm'') = None
   \<and> trace (snd (launch (posix_host\<lparr>which := \<lambda>c. if c = ''node'' then Some ''/usr/bin/node'' else None\<rparr>)
        default_args Map.empty)) = [Which ''node'', Which ''npm'', Stderr ''ERROR: npm not found in PATH.'']"
    by (simp add: run_simps)
  from toolchain_missing_exits_1[OF h, of default_args Map.empty] h t show ?thesis by simp
qed

text \<open>
  C6, as the script has it. The names looked up on the search path are \<open>node\<close>, as it
  is on every platform, and then, when \<open>node\<close> was found, \<open>npm.cmd\<close> where
  \<open>os.name\<close> is \<open>nt\<close> and \<open>npm\<close> elsewhere: \<open>exe\<close> is applied to the package
  manager only.
\<close>

theorem toolchain_search_names:
  "filter is_which (trace (snd (launch w a penv))) =
     (if which w ''node'' = None then [Which ''node'']
      else [Which ''node'', Which (if os_name w = ''nt'' then ''npm.cmd'' else ''npm'')])"
proof (cases w a penv rule: launch_cases)
  case (service pre)
  then show ?thesis
    by (cases w a "\<lparr>trace = pre, os_environ = penv\<rparr>" rule: service_step_cases)
       (simp_all add: exe_def)
qed (simp_all add: exe_def)

theorem toolchain_search_names_witness:
  "filter is_which (trace (snd (launch posix_host default_args Map.empty))) =
     [Which ''node'', Which ''npm'']"
  using toolchain_search_names[of posix_host default_args Map.empty] by (simp add: posix_host_def)

text \<open>
  C6 as stated fails: on a Windows host the runtime is not looked up under a suffixed
  name. The searches made are for \<open>node\<close> and \<open>npm.cmd\<close>; \<open>node.cmd\<close> is never
  searched.
\<close>

theorem runtime_searched_without_suffix_on_windows:
  "os_name windows_host = ''nt''
   \<and> Which (''node'' @ ''.cmd'') \<notin> set (trace (snd (launch windows_host default_args Map.empty)))
   \<and> filter is_which (trace (snd (launch windows_host default_args Map.empty))) =
       [Which ''node'', Which ''npm.cmd'']"
  by (simp add: run_simps)

subsection \<open>Interrupts\<close>

text \<open>
  C7. If the service was spawned and \<open>wait\<close> is interrupted by \<open>KeyboardInterrupt\<close>,
  the launcher prints the notice, calls \<open>terminate\<close> on the child, and returns
  normally, so that its exit status is 0. A failure of \<open>terminate\<close>, that is an
  exception of class \<open>Exception\<close>, is swallowed by \<open>except Exception: pass\<close>.
\<close>

theorem interrupt_while_waiting:
  assumes "Popen cmd env \<in> set (trace (snd (launch w a penv)))"
    and "popen_result w cmd env = None"
    and "wait_result w cmd = Inl KeyboardInterrupt"
    and "\<forall>e. terminate_result w cmd = Some e \<longrightarrow> is_Exception e"
  shows "fst (launch w a penv) = None
       \<and> exit_status (fst (launch w a penv)) = Some 0
       \<and> (\<exists>pre. trace (snd (launch w a penv)) =
             pre @ [Popen cmd env, Stdout (CHR 0x0A # ''Stopping...''), Terminate cmd])"
proof (cases w a penv rule: launch_cases)
  case (service pre)
  show ?thesis
  proof (cases w a "\<lparr>trace = pre, os_environ = penv\<rparr>" rule: service_step_cases)
    case wait_interrupted
    with service assms have ce: "cmd = service_cmd w a"
      "env = child_env a \<lparr>trace = pre, os_environ = penv\<rparr>"
      by (auto split: if_splits)
    from assms(4) ce have "(case terminate_result w (service_cmd w a) of None \<Rightarrow> None
        | Some e \<Rightarrow> if is_Exception e then None else Some e) = None"
      by (simp split: option.splits)
    with service wait_interrupted ce show ?thesis
      by (auto intro!: exI[of _ "pre @ [Stdout (status_line a)]"])
  qed (use service assms in \<open>auto split: if_splits\<close>)
qed (use assms in \<open>auto split: if_splits\<close>)

theorem interrupt_while_waiting_witness:
  "Popen [''npm'', ''start''] [''PORT'' \<mapsto> ''3001'']
     \<in> set (trace (snd (launch
          (posix_host\<lparr>wait_result := \<lambda>argv. Inl KeyboardInterrupt,
                       terminate_result := \<lambda>argv. Some OSError\<rparr>) default_args Map.empty)))
   \<and> is_Exception OSError
   \<and> exit_status (fst (launch
          (posix_host\<lparr>wait_result := \<lambda>argv. Inl KeyboardInterrupt,
                       terminate_result := \<lambda>argv. Some OSError\<rparr>) default_args Map.empty)) = Some 0
   \<and> (\<exists>pre. trace (snd (launch
          (posix_host\<lparr>wait_result := \<lambda>argv. Inl KeyboardInterrupt,
                       terminate_result := \<lambda>argv. Some OSError\<rparr>) default_args Map.empty)) =
        pre @ [Popen [''npm'', ''start''] [''PORT'' \<mapsto> ''3001''],
               Stdout (CHR 0x0A # ''Stopping...''), Terminate [''npm'', ''start'']])"
proof -
  let ?w = "posix_host\<lparr>wait_result := \<lambda>argv. Inl KeyboardInterrupt,
                       terminate_result := \<lambda>argv. Some OSError\<rparr>"
  have h1: "Popen [''npm'', ''start''] [''PORT'' \<mapsto> ''3001'']
     \<in> set (trace (snd (launch ?w default_args Map.empty)))"
    by (simp add: run_simps)
  have h2: "popen_result ?w [''npm'', ''start''] [''PORT'' \<mapsto> ''3001''] = None"
    by (simp add: posix_host_def)
  have h3: "wait_result ?w [''npm'', ''start''] = Inl KeyboardInterrupt"
    by simp
  have h4: "\<forall>e. terminate_result ?w [''npm'', ''start''] = Some e \<longrightarrow> is_Exception e"
    by simp
  from interrupt_while_waiting[OF h1 h2 h3 h4] h1 show ?thesis by simp
qed

text \<open>
  C10. If \<open>Popen\<close> itself is interrupted by \<open>KeyboardInterrupt\<close>, the local \<open>proc\<close>
  is unbound: the termination attempt raises \<open>UnboundLocalError\<close> without calling
  \<open>terminate\<close>, \<open>UnboundLocalError\<close> is an \<open>Exception\<close> and is swallowed, and the
  launcher returns normally with exit status 0. No exception leaves the launcher on
  this path, whatever the host does.
\<close>

theorem interrupt_during_spawn:
  assumes "Popen cmd env \<in> set (trace (snd (launch w a penv)))"
    and "popen_result w cmd env = Some KeyboardInterrupt"
  shows "terminate_attempt w None s = (Some UnboundLocalError, s)
       \<and> is_Exception UnboundLocalError
       \<and> fst (launch w a penv) = None
       \<and> exit_status (fst (launch w a penv)) = Some 0
       \<and> \<not> list_ex is_terminate (trace (snd (launch w a penv)))
       \<and> (\<exists>pre. trace (snd (launch w a penv)) =
             pre @ [Popen cmd env, Stdout (CHR 0x0A # ''Stopping...'')])"
proof (cases w a penv rule: launch_cases)
  case (service pre)
  show ?thesis
  proof (cases w a "\<lparr>trace = pre, os_environ = penv\<rparr>" rule: service_step_cases)
    case spawn_interrupted
    with service assms have ce: "cmd = service_cmd w a"
      "env = child_env a \<lparr>trace = pre, os_environ = penv\<rparr>"
      by (auto split: if_splits)
    with service spawn_interrupted show ?thesis
      by (auto simp: terminate_attempt_def intro!: exI[of _ "pre @ [Stdout (status_line a)]"])
  qed (use service assms in \<open>auto split: if_splits\<close>)
qed (use assms in \<open>auto split: if_splits\<close>)

theorem interrupt_during_spawn_witness:
  "Popen [''npm'', ''start''] [''PORT'' \<mapsto> ''3001'']
     \<in> set (trace (snd (launch
          (posix_host\<lparr>popen_result := \<lambda>argv env. Some KeyboardInterrupt\<rparr>)
          default_args Map.empty)))
   \<and> fst (launch (posix_host\<lparr>popen_result := \<lambda>argv env. Some KeyboardInterrupt\<rparr>)
          default_args Map.empty) = None
   \<and> exit_status (fst (launch (posix_host\<lparr>popen_result := \<lambda>argv env. Some KeyboardInterrupt\<rparr>)
          default_args Map.empty)) = Some 0"
proof -
  let ?w = "posix_host\<lparr>popen_result := \<lambda>argv env. Some KeyboardInterrupt\<rparr>"
  have h1: "Popen [''npm'', ''start''] [''PORT'' \<mapsto> ''3001'']
     \<in> set (trace (snd (launch ?w default_args Map.empty)))"
    by (simp add: run_simps)
  have h2: "popen_result ?w [''npm'', ''start''] [''PORT'' \<mapsto> ''3001''] = Some KeyboardInterrupt"
    by simp
  from interrupt_during_spawn[OF h1 h2] h1 show ?thesis by simp
qed

subsection \<open>Order of the two children and their environments\<close>

text \<open>
  C8. In a run that calls the installer, the install call is the first event that
  concerns a child process and the only install call. If the service is spawned in that
  run, the next two such events are the return of the install call with code 0 and the
  \<open>Popen\<close> of the service, in this order, and no child is started after that: the
  installer has completed with success before the service starts, and the service never
  comes first.
\<close>

theorem install_strictly_before_service:
  assumes "list_ex is_call (trace (snd (launch w a penv)))"
  shows "take 1 (proc_events (trace (snd (launch w a penv)))) =
           [Call [exe w ''npm'', ''install''] penv]
       \<and> \<not> list_ex is_call (drop 1 (proc_events (trace (snd (launch w a penv)))))
       \<and> (list_ex is_popen (trace (snd (launch w a penv))) \<longrightarrow>
            take 2 (drop 1 (proc_events (trace (snd (launch w a penv))))) =
              [Call_returned [exe w ''npm'', ''install''] 0,
               Popen (service_cmd w a) (penv(''PORT'' \<mapsto> str_int (port a)))]
            \<and> \<not> list_ex is_spawn (drop 3 (proc_events (trace (snd (launch w a penv))))))"
proof (cases w a penv rule: launch_cases)
  case (service pre)
  show ?thesis
  proof (cases "force_install a \<or> \<not> isdir w ''node_modules''")
    case True
    with service show ?thesis
      by (cases w a "\<lparr>trace = pre, os_environ = penv\<rparr>" rule: service_step_cases)
         (simp_all add: proc_events_def is_spawn_def child_env_def)
  next
    case False
    with service assms show ?thesis
      by (cases w a "\<lparr>trace = pre, os_environ = penv\<rparr>" rule: service_step_cases)
         simp_all
  qed
qed (use assms in \<open>simp_all add: proc_events_def is_spawn_def\<close>)

theorem install_strictly_before_service_witness:
  "list_ex is_call (trace (snd (launch posix_host default_args Map.empty)))
   \<and> proc_events (trace (snd (launch posix_host default_args Map.empty))) =
       [Call [''npm'', ''install''] Map.empty,
        Call_returned [''npm'', ''install''] 0,
        Popen [''npm'', ''start''] [''PORT'' \<mapsto> ''3001''],
        Wait_returned [''npm'', ''start''] 0]"
proof -
  have h: "list_ex is_call (trace (snd (launch posix_host default_args Map.empty)))"
    by (simp add: run_simps)
  have t: "proc_events (trace (snd (launch posix_host default_args Map.empty))) =
       [Call [''npm'', ''install''] Map.empty,
        Call_returned [''npm'', ''install''] 0,
        Popen [''npm'', ''start''] [''PORT'' \<mapsto> ''3001''],
        Wait_returned [''npm'', ''start''] 0]"
    by (simp add: run_simps)
  from install_strictly_before_service[OF h] h t show ?thesis by simp
qed

text \<open>
  C9. The installer is started with the launcher's own environment, unmodified: the
  environment of every \<open>subprocess.call\<close> is the parent environment, \<open>PORT\<close>
  included, and \<open>os.environ\<close> is the parent environment at the end of every run. The
  \<open>PORT\<close> override goes to the service child only.
\<close>

theorem installer_inherits_parent_env:
  assumes "Call argv env \<in> set (trace (snd (launch w a penv)))"
  shows "argv = [exe w ''npm'', ''install'']
       \<and> env = penv
       \<and> env ''PORT'' = penv ''PORT''
       \<and> os_environ (snd (launch w a penv)) = penv"
proof (cases w a penv rule: launch_cases)
  case (service pre)
  with assms show ?thesis
    by (cases w a "\<lparr>trace = pre, os_environ = penv\<rparr>" rule: service_step_cases)
       (auto split: if_splits)
qed (use assms in \<open>auto split: if_splits\<close>)

theorem installer_inherits_parent_env_witness:
  "Call [''npm'', ''install''] [''PORT'' \<mapsto> ''9999'']
     \<in> set (trace (snd (launch posix_host default_args [''PORT'' \<mapsto> ''9999''])))
   \<and> Popen [''npm'', ''start''] [''PORT'' \<mapsto> ''3001'']
     \<in> set (trace (snd (launch posix_host default_args [''PORT'' \<mapsto> ''9999''])))
   \<and> os_environ (snd (launch posix_host default_args [''PORT'' \<mapsto> ''9999''])) ''PORT''
       = Some ''9999''"
proof -
  have h: "Call [''npm'', ''install''] [''PORT'' \<mapsto> ''9999'']
     \<in> set (trace (snd (launch posix_host default_args [''PORT'' \<mapsto> ''9999''])))"
    by (simp add: run_simps)
  have p: "Popen [''npm'', ''start''] [''PORT'' \<mapsto> ''3001'']
     \<in> set (trace (snd (launch posix_host default_args [''PORT'' \<mapsto> ''9999''])))"
    by (simp add: run_simps)
  from installer_inherits_parent_env[OF h] h p show ?thesis by simp
qed

end
